theory Spec2Isabelle
  imports Main "HOL-Library.Signed_Division"
begin

section \<open>The ERC-4626 deposit planner (erc4626-deposit/index.ts)\<close>

text \<open>
  The development embeds the function \<^verbatim>\<open>deposit\<close> of \<^verbatim>\<open>erc4626-deposit/index.ts\<close>.
  The function is asynchronous and talks to two collaborators of the viem library: a
  public client (contract reads, gas estimation, waiting for a receipt) and an optional
  wallet client (sending a transaction). Every call to a collaborator is an effect, so the
  model threads a log of the calls issued so far and returns it next to the result.
  Every \<^verbatim>\<open>throw\<close> of the source, and every call of the library that can throw, is a
  branch of the model that returns \<open>Inl\<close>.
\<close>

subsection \<open>Data\<close>

text \<open>Addresses, call data and transaction hashes are the strings \<^verbatim>\<open>`0x${string}`\<close>.\<close>

type_synonym address = string
type_synonym hex = string
type_synonym tx_hash = string

text \<open>
  The type \<^verbatim>\<open>Transaction\<close> of the source. The prefix \<open>tx_\<close> keeps the field names
  (\<^verbatim>\<open>data\<close>, \<^verbatim>\<open>from\<close>, \<^verbatim>\<open>to\<close>, \<^verbatim>\<open>value\<close>, \<^verbatim>\<open>gas\<close>) clear of Isabelle's keywords.
  A \<^verbatim>\<open>bigint\<close> is an unbounded integer.
\<close>

record Transaction =
  tx_data :: hex
  tx_from :: address
  tx_to :: address
  tx_value :: int
  tx_gas :: int

text \<open>
  The receipt is typed \<^verbatim>\<open>any\<close> in the source; the fields kept here are the ones the
  specification and the tests of the repository read from it.
\<close>

datatype status = success | reverted

record receipt =
  rc_status :: status
  rc_from :: address
  rc_to :: address

text \<open>The type \<^verbatim>\<open>DepositResult\<close> of the source.\<close>

record DepositResult =
  hash :: tx_hash
  receipt :: receipt

text \<open>The return type \<^verbatim>\<open>Transaction | DepositResult\<close> as a tagged union.\<close>

datatype outcome = Quote Transaction | Executed DepositResult

text \<open>
  An error raised inside the viem library (a failed RPC transport, a reverted simulation,
  an argument that cannot be ABI-encoded) is opaque to the planner. The planner's own
  error classes are the first five constructors of \<open>error\<close>; whatever the library throws
  propagates unchanged and is the sixth.
\<close>

datatype failure = Failure string

datatype error =
    NotEnoughBalanceError
  | MissingAllowanceError
  | AmountExceedsMaxDepositError
  | InvalidAmountError
  | InvalidReceiverError
  | ViemError failure

text \<open>The argument objects of \<^verbatim>\<open>client.estimateGas\<close> and \<^verbatim>\<open>walletClient.sendTransaction\<close>.
  The latter is the descriptor spread (\<^verbatim>\<open>...depositTx\<close>) plus \<^verbatim>\<open>account\<close> and
  \<^verbatim>\<open>chain: null\<close>.\<close>

record EstimateGasParameters =
  eg_account :: address
  eg_to :: address
  eg_data :: hex

record SendTransactionParameters = Transaction +
  account :: address
  chain :: "nat option"

text \<open>
  The collaborators. A read returns what the chain answers, or fails inside the library.
  Amounts decoded from the chain (\<^verbatim>\<open>uint256\<close> results and the gas quantity of
  \<^verbatim>\<open>eth_estimateGas\<close>) are unsigned, hence \<open>nat\<close>; the planner handles them as
  \<^verbatim>\<open>bigint\<close>, hence the coercion \<open>int\<close> at each use.

  Within one run of \<^verbatim>\<open>deposit\<close> every operation is called at most once, so answers that
  are functions of the arguments lose no behaviour of a stateful chain.
\<close>

record PublicClient =
  read_asset :: "address \<Rightarrow> failure + address"
  read_balanceOf :: "address \<Rightarrow> address \<Rightarrow> failure + nat"
  read_allowance :: "address \<Rightarrow> address \<Rightarrow> address \<Rightarrow> failure + nat"
  read_maxDeposit :: "address \<Rightarrow> address \<Rightarrow> failure + nat"
  estimateGas :: "EstimateGasParameters \<Rightarrow> failure + nat"
  waitForTransactionReceipt :: "tx_hash \<Rightarrow> failure + receipt"

record WalletClient =
  sendTransaction :: "SendTransactionParameters \<Rightarrow> failure + tx_hash"

text \<open>The type \<^verbatim>\<open>DepositParams\<close> of the source; \<^verbatim>\<open>walletClient?\<close> is optional.\<close>

record DepositParams =
  wallet :: address
  vault :: address
  amount :: int
  walletClient :: "WalletClient option"

subsection \<open>Effects\<close>

text \<open>
  One constructor for each remote operation the planner can issue, with its arguments:
  \<^verbatim>\<open>vaultContract.read.asset()\<close>, \<^verbatim>\<open>assetContract.read.balanceOf([wallet])\<close>,
  \<^verbatim>\<open>assetContract.read.allowance([wallet, vault])\<close>,
  \<^verbatim>\<open>vaultContract.read.maxDeposit([wallet])\<close>, \<^verbatim>\<open>client.estimateGas\<close>,
  \<^verbatim>\<open>walletClient.sendTransaction\<close> and \<^verbatim>\<open>client.waitForTransactionReceipt\<close>.
  The first address of a read is the contract it is sent to.
\<close>

datatype call =
    ReadAsset address
  | ReadBalanceOf address address
  | ReadAllowance address address address
  | ReadMaxDeposit address address
  | EstimateGas EstimateGasParameters
  | SendTransaction SendTransactionParameters
  | WaitForTransactionReceipt tx_hash

text \<open>A computation takes the log of calls issued so far and returns its result, or the
  error thrown, with the log extended.\<close>

type_synonym 'a eff = "call list \<Rightarrow> (error + 'a) \<times> call list"

definition throw :: "error \<Rightarrow> 'a eff" where
  "throw e log = (Inl e, log)"

definition ret :: "'a \<Rightarrow> 'a eff" where
  "ret v log = (Inr v, log)"

text \<open>A call of a pure library function that may throw: nothing is logged.\<close>

definition library :: "failure + 'a \<Rightarrow> 'a eff" where
  "library r log = (case r of Inl f \<Rightarrow> (Inl (ViemError f), log) | Inr v \<Rightarrow> (Inr v, log))"

text \<open>A remote call: it is logged whether it answers or fails.\<close>

definition remote :: "call \<Rightarrow> failure + 'a \<Rightarrow> 'a eff" where
  "remote c r log =
     (case r of Inl f \<Rightarrow> (Inl (ViemError f), log @ [c]) | Inr v \<Rightarrow> (Inr v, log @ [c]))"

text \<open>\<^verbatim>\<open>const x = await m; k x\<close>: an error thrown by \<open>m\<close> ends the function.\<close>

definition await :: "'a eff \<Rightarrow> ('a \<Rightarrow> 'b eff) \<Rightarrow> 'b eff" where
  "await m k log = (case m log of (Inl e, log') \<Rightarrow> (Inl e, log') | (Inr v, log') \<Rightarrow> k v log')"

subsection \<open>The planner\<close>

definition zero_address :: address where
  "zero_address = ''0x0000000000000000000000000000000000000000''"

text \<open>
  \<^verbatim>\<open>deposit(client, { wallet, vault, amount, walletClient })\<close>, statement by statement.
  The first argument stands for viem's pure function
  \<^verbatim>\<open>encodeFunctionData({ abi: erc4626Abi, functionName: "deposit", args: [amount, wallet] })\<close>,
  which is not part of the repository; it is a parameter, called twice as in the source.
  Division of \<^verbatim>\<open>bigint\<close>s truncates towards zero, which is \<open>sdiv\<close>.
  The result is the value returned or the error thrown, together with the calls issued.
\<close>

definition deposit ::
  "(int \<Rightarrow> address \<Rightarrow> failure + hex) \<Rightarrow> PublicClient \<Rightarrow> DepositParams
     \<Rightarrow> (error + outcome) \<times> call list" where
  "deposit encodeFunctionData client p =
    (if amount p \<le> 0 then throw InvalidAmountError
     else if wallet p = zero_address then throw InvalidReceiverError
     else if vault p = zero_address then throw InvalidReceiverError
     else
       await (remote (ReadAsset (vault p)) (read_asset client (vault p))) (\<lambda>asset.
       await (remote (ReadBalanceOf asset (wallet p))
                (read_balanceOf client asset (wallet p))) (\<lambda>balance.
       if int balance < amount p then throw NotEnoughBalanceError
       else
       await (remote (ReadAllowance asset (wallet p) (vault p))
                (read_allowance client asset (wallet p) (vault p))) (\<lambda>allowance.
       if int allowance < amount p then throw MissingAllowanceError
       else
       await (remote (ReadMaxDeposit (vault p) (wallet p))
                (read_maxDeposit client (vault p) (wallet p))) (\<lambda>maxDeposit.
       if int maxDeposit < amount p then throw AmountExceedsMaxDepositError
       else
       await (library (encodeFunctionData (amount p) (wallet p))) (\<lambda>estimateData.
       await (remote
                (EstimateGas \<lparr>eg_account = wallet p, eg_to = vault p, eg_data = estimateData\<rparr>)
                (estimateGas client
                   \<lparr>eg_account = wallet p, eg_to = vault p, eg_data = estimateData\<rparr>))
         (\<lambda>gasEstimate.
       await (library (encodeFunctionData (amount p) (wallet p))) (\<lambda>txData.
       let depositTx = \<lparr>tx_data = txData, tx_from = wallet p, tx_to = vault p, tx_value = 0,
                        tx_gas = int gasEstimate + (int gasEstimate * 10) sdiv 100\<rparr>
       in case walletClient p of
            Some wc \<Rightarrow>
              let request = \<lparr>tx_data = tx_data depositTx, tx_from = tx_from depositTx,
                             tx_to = tx_to depositTx, tx_value = tx_value depositTx,
                             tx_gas = tx_gas depositTx, account = wallet p, chain = None\<rparr>
              in
              await (remote (SendTransaction request) (sendTransaction wc request)) (\<lambda>hash.
              await (remote (WaitForTransactionReceipt hash)
                       (waitForTransactionReceipt client hash)) (\<lambda>receipt.
              ret (Executed \<lparr>hash = hash, receipt = receipt\<rparr>)))
          | None \<Rightarrow> ret (Quote depositTx))))))))) []"

subsection \<open>Reading the log\<close>

text \<open>The requests handed to \<^verbatim>\<open>walletClient.sendTransaction\<close> and the arguments of the
  gas simulations, in the order the calls were issued.\<close>

definition sends :: "call list \<Rightarrow> SendTransactionParameters list" where
  "sends log = [r. SendTransaction r \<leftarrow> log]"

definition estimates :: "call list \<Rightarrow> EstimateGasParameters list" where
  "estimates log = [e. EstimateGas e \<leftarrow> log]"

text \<open>The read-only contract queries among the remote operations.\<close>

fun contract_read :: "call \<Rightarrow> bool" where
  "contract_read (ReadAsset v) = True"
| "contract_read (ReadBalanceOf a w) = True"
| "contract_read (ReadAllowance a w v) = True"
| "contract_read (ReadMaxDeposit v w) = True"
| "contract_read (EstimateGas e) = False"
| "contract_read (SendTransaction r) = False"
| "contract_read (WaitForTransactionReceipt h) = False"

subsection \<open>A concrete chain for the examples\<close>

text \<open>
  A depositor holding 10 units of the asset, who has approved the vault for 8, and a vault
  that accepts at most 6 from this depositor. The gas simulation answers 21005, so that the
  ten percent buffer is not a whole number. The encoder is a stand-in that is injective in
  the amount and the receiver; the planner never looks inside the call data.
\<close>

definition demo_wallet :: address where
  "demo_wallet = ''0x70997970c51812dc3a010c7d01b50e0d17dc79c8''"

definition demo_vault :: address where
  "demo_vault = ''0xe7f1725e7734ce288f8367e1bb143e90bb3f0512''"

definition demo_asset :: address where
  "demo_asset = ''0x5fbdb2315678afecb367f032d93f642f64180aa3''"

definition demo_hash :: tx_hash where
  "demo_hash = ''0x9c22ff5f21f0b81b113e63f7db6da94fedef11b2119b4088b89664fb9a3cb658''"

definition demo_encode :: "int \<Rightarrow> address \<Rightarrow> failure + hex" where
  "demo_encode a w = Inr (''0x6e553f65'' @ replicate (nat a) (CHR ''1'') @ drop 2 w)"

definition demo_client :: "status \<Rightarrow> PublicClient" where
  "demo_client st =
     \<lparr>read_asset = (\<lambda>v. if v = demo_vault then Inr demo_asset
                         else Inl (Failure ''ContractFunctionExecutionError'')),
      read_balanceOf = (\<lambda>a w. if a = demo_asset \<and> w = demo_wallet then Inr 10 else Inr 0),
      read_allowance = (\<lambda>a w v. if a = demo_asset \<and> w = demo_wallet \<and> v = demo_vault
                                then Inr 8 else Inr 0),
      read_maxDeposit = (\<lambda>v w. Inr 6),
      estimateGas = (\<lambda>e. Inr 21005),
      waitForTransactionReceipt =
        (\<lambda>h. Inr \<lparr>rc_status = st, rc_from = demo_wallet, rc_to = demo_vault\<rparr>)\<rparr>"

definition demo_signer :: WalletClient where
  "demo_signer = \<lparr>sendTransaction = (\<lambda>r. Inr demo_hash)\<rparr>"

text \<open>A wallet client that signs only for the depositor and the vault of the examples.\<close>

definition strict_signer :: WalletClient where
  "strict_signer =
     \<lparr>sendTransaction = (\<lambda>r. if tx_from r = demo_wallet \<and> tx_to r = demo_vault
                                then Inr demo_hash else Inl (Failure ''unknown account''))\<rparr>"

definition demo_request :: "address \<Rightarrow> address \<Rightarrow> int \<Rightarrow> WalletClient option \<Rightarrow> DepositParams" where
  "demo_request w v a wc = \<lparr>wallet = w, vault = v, amount = a, walletClient = wc\<rparr>"

section \<open>Properties of the planner\<close>

subsection \<open>Unfolding a run\<close>

lemmas eff_defs = throw_def ret_def library_def remote_def await_def

lemmas demo_defs = demo_wallet_def demo_vault_def demo_asset_def demo_hash_def
  demo_encode_def demo_client_def demo_signer_def demo_request_def zero_address_def

text \<open>On a non-negative estimate truncating and floor division agree.\<close>

lemma sdiv_nonneg: "(int n * 10) sdiv 100 = (int n * 10) div 100"
  by (simp add: signed_divide_int_def sgn_if)

text \<open>Quote mode: when every check passes and the simulation answers, the descriptor is
  returned after exactly five remote calls.\<close>

lemma deposit_quote:
  assumes "0 < amount p" "wallet p \<noteq> zero_address" "vault p \<noteq> zero_address"
    and "read_asset c (vault p) = Inr asset"
    and "read_balanceOf c asset (wallet p) = Inr balance" "amount p \<le> int balance"
    and "read_allowance c asset (wallet p) (vault p) = Inr allowance" "amount p \<le> int allowance"
    and "read_maxDeposit c (vault p) (wallet p) = Inr maxDeposit" "amount p \<le> int maxDeposit"
    and "enc (amount p) (wallet p) = Inr d"
    and "estimateGas c \<lparr>eg_account = wallet p, eg_to = vault p, eg_data = d\<rparr> = Inr g"
    and "walletClient p = None"
  shows "deposit enc c p =
    (Inr (Quote \<lparr>tx_data = d, tx_from = wallet p, tx_to = vault p, tx_value = 0,
                 tx_gas = int g + int g * 10 div 100\<rparr>),
     [ReadAsset (vault p), ReadBalanceOf asset (wallet p),
      ReadAllowance asset (wallet p) (vault p), ReadMaxDeposit (vault p) (wallet p),
      EstimateGas \<lparr>eg_account = wallet p, eg_to = vault p, eg_data = d\<rparr>])"
  using assms by (simp add: deposit_def eff_defs sdiv_nonneg)

text \<open>Execution mode: the descriptor is sent once; what happens next is the wallet
  client's and the chain's answer.\<close>

lemma deposit_send:
  assumes "0 < amount p" "wallet p \<noteq> zero_address" "vault p \<noteq> zero_address"
    and "read_asset c (vault p) = Inr asset"
    and "read_balanceOf c asset (wallet p) = Inr balance" "amount p \<le> int balance"
    and "read_allowance c asset (wallet p) (vault p) = Inr allowance" "amount p \<le> int allowance"
    and "read_maxDeposit c (vault p) (wallet p) = Inr maxDeposit" "amount p \<le> int maxDeposit"
    and "enc (amount p) (wallet p) = Inr d"
    and "estimateGas c \<lparr>eg_account = wallet p, eg_to = vault p, eg_data = d\<rparr> = Inr g"
    and "walletClient p = Some wc"
    and "req = \<lparr>tx_data = d, tx_from = wallet p, tx_to = vault p, tx_value = 0,
                 tx_gas = int g + int g * 10 div 100, account = wallet p, chain = None\<rparr>"
  shows "deposit enc c p =
    (case sendTransaction wc req of
       Inl f \<Rightarrow>
         (Inl (ViemError f),
          [ReadAsset (vault p), ReadBalanceOf asset (wallet p),
           ReadAllowance asset (wallet p) (vault p), ReadMaxDeposit (vault p) (wallet p),
           EstimateGas \<lparr>eg_account = wallet p, eg_to = vault p, eg_data = d\<rparr>,
           SendTransaction req])
     | Inr h \<Rightarrow>
         (case waitForTransactionReceipt c h of
            Inl f \<Rightarrow> Inl (ViemError f)
          | Inr r \<Rightarrow> Inr (Executed \<lparr>hash = h, receipt = r\<rparr>),
          [ReadAsset (vault p), ReadBalanceOf asset (wallet p),
           ReadAllowance asset (wallet p) (vault p), ReadMaxDeposit (vault p) (wallet p),
           EstimateGas \<lparr>eg_account = wallet p, eg_to = vault p, eg_data = d\<rparr>,
           SendTransaction req, WaitForTransactionReceipt h]))"
  using assms by (simp add: deposit_def eff_defs sdiv_nonneg Let_def split: sum.splits)

text \<open>A run that returns a value has passed every check and obtained a gas estimate.\<close>

lemma deposit_Inr_E:
  assumes "fst (deposit enc c p) = Inr out"
  obtains asset balance allowance maxDeposit d g where
    "0 < amount p" "wallet p \<noteq> zero_address" "vault p \<noteq> zero_address"
    "read_asset c (vault p) = Inr asset"
    "read_balanceOf c asset (wallet p) = Inr balance" "amount p \<le> int balance"
    "read_allowance c asset (wallet p) (vault p) = Inr allowance" "amount p \<le> int allowance"
    "read_maxDeposit c (vault p) (wallet p) = Inr maxDeposit" "amount p \<le> int maxDeposit"
    "enc (amount p) (wallet p) = Inr d"
    "estimateGas c \<lparr>eg_account = wallet p, eg_to = vault p, eg_data = d\<rparr> = Inr g"
  using assms
  by (simp add: deposit_def eff_defs Let_def split: if_splits sum.splits option.splits)

text \<open>The runs of the examples: a deposit of 5 units passes every check.\<close>

lemma demo_encode_5:
  "demo_encode 5 demo_wallet =
     Inr ''0x6e553f651111170997970c51812dc3a010c7d01b50e0d17dc79c8''"
  by (simp add: demo_encode_def demo_wallet_def eval_nat_numeral)

lemma demo_quote_run:
  "deposit demo_encode (demo_client st) (demo_request demo_wallet demo_vault 5 None) =
     (Inr (Quote \<lparr>tx_data = ''0x6e553f651111170997970c51812dc3a010c7d01b50e0d17dc79c8'',
                  tx_from = demo_wallet, tx_to = demo_vault, tx_value = 0, tx_gas = 23105\<rparr>),
      [ReadAsset demo_vault, ReadBalanceOf demo_asset demo_wallet,
       ReadAllowance demo_asset demo_wallet demo_vault, ReadMaxDeposit demo_vault demo_wallet,
       EstimateGas \<lparr>eg_account = demo_wallet, eg_to = demo_vault,
         eg_data = ''0x6e553f651111170997970c51812dc3a010c7d01b50e0d17dc79c8''\<rparr>])"
  by (simp add: deposit_def eff_defs demo_encode_5 demo_request_def demo_client_def
      demo_vault_def demo_asset_def zero_address_def signed_divide_int_def)
    (simp add: demo_wallet_def)

lemma demo_send_run:
  "deposit demo_encode (demo_client st)
     (demo_request demo_wallet demo_vault 5 (Some demo_signer)) =
     (Inr (Executed \<lparr>hash = demo_hash,
                     receipt = \<lparr>rc_status = st, rc_from = demo_wallet, rc_to = demo_vault\<rparr>\<rparr>),
      [ReadAsset demo_vault, ReadBalanceOf demo_asset demo_wallet,
       ReadAllowance demo_asset demo_wallet demo_vault, ReadMaxDeposit demo_vault demo_wallet,
       EstimateGas \<lparr>eg_account = demo_wallet, eg_to = demo_vault,
         eg_data = ''0x6e553f651111170997970c51812dc3a010c7d01b50e0d17dc79c8''\<rparr>,
       SendTransaction
         \<lparr>tx_data = ''0x6e553f651111170997970c51812dc3a010c7d01b50e0d17dc79c8'',
          tx_from = demo_wallet, tx_to = demo_vault, tx_value = 0, tx_gas = 23105,
          account = demo_wallet, chain = None\<rparr>,
       WaitForTransactionReceipt demo_hash])"
  by (simp add: deposit_def eff_defs demo_encode_5 demo_request_def demo_client_def
      demo_signer_def demo_vault_def demo_asset_def zero_address_def signed_divide_int_def Let_def)
    (simp add: demo_wallet_def)

lemma demo_checks:
  "0 < amount (demo_request demo_wallet demo_vault 5 wc)"
  "wallet (demo_request demo_wallet demo_vault 5 wc) \<noteq> zero_address"
  "vault (demo_request demo_wallet demo_vault 5 wc) \<noteq> zero_address"
  "read_asset (demo_client st) (vault (demo_request demo_wallet demo_vault 5 wc)) = Inr demo_asset"
  "read_balanceOf (demo_client st) demo_asset
     (wallet (demo_request demo_wallet demo_vault 5 wc)) = Inr 10"
  "amount (demo_request demo_wallet demo_vault 5 wc) \<le> int 10"
  "read_allowance (demo_client st) demo_asset
     (wallet (demo_request demo_wallet demo_vault 5 wc))
     (vault (demo_request demo_wallet demo_vault 5 wc)) = Inr 8"
  "amount (demo_request demo_wallet demo_vault 5 wc) \<le> int 8"
  "read_maxDeposit (demo_client st)
     (vault (demo_request demo_wallet demo_vault 5 wc))
     (wallet (demo_request demo_wallet demo_vault 5 wc)) = Inr 6"
  "amount (demo_request demo_wallet demo_vault 5 wc) \<le> int 6"
  "demo_encode (amount (demo_request demo_wallet demo_vault 5 wc))
     (wallet (demo_request demo_wallet demo_vault 5 wc)) =
     Inr ''0x6e553f651111170997970c51812dc3a010c7d01b50e0d17dc79c8''"
  "estimateGas (demo_client st)
     \<lparr>eg_account = wallet (demo_request demo_wallet demo_vault 5 wc),
      eg_to = vault (demo_request demo_wallet demo_vault 5 wc),
      eg_data = ''0x6e553f651111170997970c51812dc3a010c7d01b50e0d17dc79c8''\<rparr> = Inr 21005"
  by (simp_all add: demo_request_def demo_client_def demo_encode_5)
    (simp_all add: demo_wallet_def demo_vault_def zero_address_def)

subsection \<open>Local validation\<close>

text \<open>
  Claim C2. For every request whose amount is less than or equal to zero, \<^verbatim>\<open>deposit\<close>
  fails with \<^verbatim>\<open>InvalidAmountError\<close>, and the log of remote calls is empty: no ledger
  read, no gas estimation and no submission has been issued. This holds whatever the
  addresses, the chain and the wallet client are.
\<close>

theorem invalid_amount_no_remote_call:
  "amount p \<le> 0 \<Longrightarrow> deposit enc c p = (Inl InvalidAmountError, [])"
  by (simp add: deposit_def throw_def)

theorem invalid_amount_no_remote_call_witness:
  "amount (demo_request demo_wallet demo_vault 0 (Some demo_signer)) \<le> 0
   \<and> deposit demo_encode (demo_client success)
        (demo_request demo_wallet demo_vault 0 (Some demo_signer)) = (Inl InvalidAmountError, [])
   \<and> deposit demo_encode (demo_client success)
        (demo_request demo_wallet demo_vault (- 3) None) = (Inl InvalidAmountError, [])"
proof -
  have a: "amount (demo_request demo_wallet demo_vault 0 (Some demo_signer)) \<le> 0"
    and b: "amount (demo_request demo_wallet demo_vault (- 3) None) \<le> 0"
    by (simp_all add: demo_request_def)
  show ?thesis
    using a invalid_amount_no_remote_call [OF a] invalid_amount_no_remote_call [OF b]
    by blast
qed

text \<open>
  Claim C3. For every request with a strictly positive amount in which the depositor
  address or the vault address (or both) is the zero address, \<^verbatim>\<open>deposit\<close> fails with
  \<^verbatim>\<open>InvalidReceiverError\<close>: the same error whichever address is invalid. No remote call
  has been issued at that point.
\<close>

theorem zero_address_invalid_receiver:
  "0 < amount p \<Longrightarrow> wallet p = zero_address \<or> vault p = zero_address
     \<Longrightarrow> deposit enc c p = (Inl InvalidReceiverError, [])"
  by (auto simp add: deposit_def throw_def)

theorem zero_address_invalid_receiver_witness:
  "deposit demo_encode (demo_client success)
     (demo_request zero_address demo_vault 5 None) = (Inl InvalidReceiverError, [])
   \<and> deposit demo_encode (demo_client success)
     (demo_request demo_wallet zero_address 5 None) = (Inl InvalidReceiverError, [])
   \<and> deposit demo_encode (demo_client success)
     (demo_request zero_address zero_address 5 None) = (Inl InvalidReceiverError, [])"
proof -
  have a: "0 < amount (demo_request w v 5 None)" for w v
    by (simp add: demo_request_def)
  have w: "wallet (demo_request zero_address v 5 None) = zero_address" for v
    by (simp add: demo_request_def)
  have v: "vault (demo_request w zero_address 5 None) = zero_address" for w
    by (simp add: demo_request_def)
  show ?thesis
    using zero_address_invalid_receiver [OF a disjI1, OF w]
      zero_address_invalid_receiver [OF a disjI2, OF v]
    by blast
qed

subsection \<open>Remote checks\<close>

text \<open>
  Claim C1. The remote-state checks run in the order balance, allowance, capacity, and
  each fails fast with its own error. For every request that passes the local amount and
  address checks, with the vault's asset and the depositor's balance of it read from the
  chain:
  \<^item> if the balance is less than the amount, the call fails with
    \<^verbatim>\<open>NotEnoughBalanceError\<close>, whatever the allowance and the capacity are: neither has
    been read;
  \<^item> if the balance is at least the amount and the allowance read is less than the
    amount, it fails with \<^verbatim>\<open>MissingAllowanceError\<close>, before the capacity is read;
  \<^item> if balance and allowance are at least the amount and the vault's
    \<^verbatim>\<open>maxDeposit\<close> for the depositor is less than the amount, it fails with
    \<^verbatim>\<open>AmountExceedsMaxDepositError\<close>.
  The log in each case shows which reads were issued, and in which order.
\<close>

theorem remote_checks_fixed_order:
  assumes "0 < amount p" "wallet p \<noteq> zero_address" "vault p \<noteq> zero_address"
    and "read_asset c (vault p) = Inr asset"
    and "read_balanceOf c asset (wallet p) = Inr balance"
  shows
    "(int balance < amount p \<longrightarrow>
        deposit enc c p =
          (Inl NotEnoughBalanceError, [ReadAsset (vault p), ReadBalanceOf asset (wallet p)]))
     \<and> (amount p \<le> int balance
          \<and> read_allowance c asset (wallet p) (vault p) = Inr allowance
          \<and> int allowance < amount p \<longrightarrow>
        deposit enc c p =
          (Inl MissingAllowanceError,
           [ReadAsset (vault p), ReadBalanceOf asset (wallet p),
            ReadAllowance asset (wallet p) (vault p)]))
     \<and> (amount p \<le> int balance
          \<and> read_allowance c asset (wallet p) (vault p) = Inr allowance
          \<and> amount p \<le> int allowance
          \<and> read_maxDeposit c (vault p) (wallet p) = Inr maxDeposit
          \<and> int maxDeposit < amount p \<longrightarrow>
        deposit enc c p =
          (Inl AmountExceedsMaxDepositError,
           [ReadAsset (vault p), ReadBalanceOf asset (wallet p),
            ReadAllowance asset (wallet p) (vault p), ReadMaxDeposit (vault p) (wallet p)]))"
  using assms by (simp add: deposit_def eff_defs)

theorem remote_checks_fixed_order_witness:
  "deposit demo_encode (demo_client success) (demo_request demo_wallet demo_vault 11 None) =
     (Inl NotEnoughBalanceError,
      [ReadAsset demo_vault, ReadBalanceOf demo_asset demo_wallet])
   \<and> deposit demo_encode (demo_client success) (demo_request demo_wallet demo_vault 9 None) =
     (Inl MissingAllowanceError,
      [ReadAsset demo_vault, ReadBalanceOf demo_asset demo_wallet,
       ReadAllowance demo_asset demo_wallet demo_vault])
   \<and> deposit demo_encode (demo_client success) (demo_request demo_wallet demo_vault 7 None) =
     (Inl AmountExceedsMaxDepositError,
      [ReadAsset demo_vault, ReadBalanceOf demo_asset demo_wallet,
       ReadAllowance demo_asset demo_wallet demo_vault, ReadMaxDeposit demo_vault demo_wallet])"
proof -
  let ?c = "demo_client success"
  let ?p = "\<lambda>a. demo_request demo_wallet demo_vault a None"
  have sel: "wallet (?p a) = demo_wallet" "vault (?p a) = demo_vault" "amount (?p a) = a" for a
    by (simp_all add: demo_request_def)
  have nz: "wallet (?p a) \<noteq> zero_address" "vault (?p a) \<noteq> zero_address" for a
    by (simp_all add: demo_defs)
  have asset: "read_asset ?c (vault (?p a)) = Inr demo_asset" for a
    by (simp add: demo_client_def demo_request_def)
  have balance: "read_balanceOf ?c demo_asset (wallet (?p a)) = Inr 10" for a
    by (simp add: demo_client_def demo_request_def)
  have allowance: "read_allowance ?c demo_asset demo_wallet demo_vault = Inr 8"
    and maxDeposit: "read_maxDeposit ?c demo_vault demo_wallet = Inr 6"
    by (simp_all add: demo_client_def)
  have pos: "0 < amount (?p 11)" "0 < amount (?p 9)" "0 < amount (?p 7)"
    by (simp_all add: sel)
  note order = remote_checks_fixed_order [OF _ nz asset balance,
      where enc = demo_encode and allowance = 8 and maxDeposit = 6]
  show ?thesis
    using order [OF pos(1)] order [OF pos(2)] order [OF pos(3)] allowance maxDeposit
    by (simp add: sel)
qed

subsection \<open>Gas and the descriptor\<close>

text \<open>
  Claim C4. For every successful run, the gas limit placed in the transaction descriptor
  equals \<open>g + g * 10 div 100\<close> in exact integer arithmetic with floor division, where
  \<open>g\<close> is the value that the gas-estimation call returned for the encoded deposit call.
  In quote mode the descriptor is the value returned; in execution mode it is the one
  request handed to the wallet client. The estimate is an unsigned quantity, so the
  truncating division of the source and floor division give the same number.
\<close>

theorem gas_limit_ten_percent_buffer:
  assumes "fst (deposit enc c p) = Inr out"
  shows "\<exists>d g. enc (amount p) (wallet p) = Inr d
      \<and> estimateGas c \<lparr>eg_account = wallet p, eg_to = vault p, eg_data = d\<rparr> = Inr g
      \<and> (case out of
            Quote tx \<Rightarrow> tx_gas tx = int g + int g * 10 div 100
          | Executed r \<Rightarrow>
              map tx_gas (sends (snd (deposit enc c p))) = [int g + int g * 10 div 100])"
proof -
  from assms obtain asset balance allowance maxDeposit d g where
    pre: "0 < amount p" "wallet p \<noteq> zero_address" "vault p \<noteq> zero_address"
      "read_asset c (vault p) = Inr asset"
      "read_balanceOf c asset (wallet p) = Inr balance" "amount p \<le> int balance"
      "read_allowance c asset (wallet p) (vault p) = Inr allowance" "amount p \<le> int allowance"
      "read_maxDeposit c (vault p) (wallet p) = Inr maxDeposit" "amount p \<le> int maxDeposit"
      "enc (amount p) (wallet p) = Inr d"
      "estimateGas c \<lparr>eg_account = wallet p, eg_to = vault p, eg_data = d\<rparr> = Inr g"
    by (rule deposit_Inr_E)
  have "case out of
            Quote tx \<Rightarrow> tx_gas tx = int g + int g * 10 div 100
          | Executed r \<Rightarrow>
              map tx_gas (sends (snd (deposit enc c p))) = [int g + int g * 10 div 100]"
  proof (cases "walletClient p")
    case None
    from deposit_quote [where enc = enc, OF pre None] assms show ?thesis
      by auto
  next
    case (Some wc)
    from deposit_send [where enc = enc, OF pre Some refl] assms show ?thesis
      by (auto simp add: sends_def split: sum.splits)
  qed
  with pre(11,12) show ?thesis
    by blast
qed

theorem gas_limit_ten_percent_buffer_witness:
  "fst (deposit demo_encode (demo_client success)
          (demo_request demo_wallet demo_vault 5 None)) =
     Inr (Quote \<lparr>tx_data = ''0x6e553f651111170997970c51812dc3a010c7d01b50e0d17dc79c8'',
                 tx_from = demo_wallet, tx_to = demo_vault, tx_value = 0, tx_gas = 23105\<rparr>)
   \<and> (\<exists>g. estimateGas (demo_client success)
              \<lparr>eg_account = demo_wallet, eg_to = demo_vault,
               eg_data = ''0x6e553f651111170997970c51812dc3a010c7d01b50e0d17dc79c8''\<rparr> = Inr g
          \<and> (23105::int) = int g + int g * 10 div 100)"
proof -
  have run: "fst (deposit demo_encode (demo_client success)
          (demo_request demo_wallet demo_vault 5 None)) =
     Inr (Quote \<lparr>tx_data = ''0x6e553f651111170997970c51812dc3a010c7d01b50e0d17dc79c8'',
                 tx_from = demo_wallet, tx_to = demo_vault, tx_value = 0, tx_gas = 23105\<rparr>)"
    by (simp add: demo_quote_run)
  have enc: "demo_encode 5 demo_wallet =
      Inr ''0x6e553f651111170997970c51812dc3a010c7d01b50e0d17dc79c8''"
    by (rule demo_encode_5)
  from gas_limit_ten_percent_buffer [OF run] enc run show ?thesis
    by (simp add: demo_request_def)
qed

text \<open>
  Claim C5. For every request that passes all validation checks and supplies no wallet
  client, once the deposit call is encoded and its gas estimated, the descriptor returned
  has value zero, its \<^verbatim>\<open>to\<close> field is the vault address, its \<^verbatim>\<open>from\<close> field is the
  depositor address, and its \<^verbatim>\<open>data\<close> field is the encoding of
  \<^verbatim>\<open>deposit(amount, depositor)\<close>.
\<close>

theorem quote_descriptor_fields:
  assumes "0 < amount p" "wallet p \<noteq> zero_address" "vault p \<noteq> zero_address"
    and "read_asset c (vault p) = Inr asset"
    and "read_balanceOf c asset (wallet p) = Inr balance" "amount p \<le> int balance"
    and "read_allowance c asset (wallet p) (vault p) = Inr allowance" "amount p \<le> int allowance"
    and "read_maxDeposit c (vault p) (wallet p) = Inr maxDeposit" "amount p \<le> int maxDeposit"
    and "enc (amount p) (wallet p) = Inr d"
    and "estimateGas c \<lparr>eg_account = wallet p, eg_to = vault p, eg_data = d\<rparr> = Inr g"
    and "walletClient p = None"
  shows "\<exists>tx. fst (deposit enc c p) = Inr (Quote tx)
      \<and> tx_value tx = 0 \<and> tx_to tx = vault p \<and> tx_from tx = wallet p \<and> tx_data tx = d"
  by (simp add: deposit_quote [where enc = enc, OF assms])

theorem quote_descriptor_fields_witness:
  "\<exists>tx. fst (deposit demo_encode (demo_client success)
                (demo_request demo_wallet demo_vault 5 None)) = Inr (Quote tx)
      \<and> tx_value tx = 0 \<and> tx_to tx = demo_vault \<and> tx_from tx = demo_wallet
      \<and> tx_data tx = ''0x6e553f651111170997970c51812dc3a010c7d01b50e0d17dc79c8''"
proof -
  have none: "walletClient (demo_request demo_wallet demo_vault 5 None) = None"
    by (simp add: demo_request_def)
  from quote_descriptor_fields [where enc = demo_encode, OF demo_checks none]
  show ?thesis
    by (simp add: demo_request_def)
qed

subsection \<open>Quote or execute\<close>



text \<open>
  Claim C7, as stated, fails: the planner returns the receipt it is given without looking
  at it. On a chain where the submitted transaction reverts, a request that passes every
  check and supplies a wallet client gets back a receipt whose status is \<open>reverted\<close>.
\<close>

theorem receipt_status_not_always_success:
  "fst (deposit demo_encode (demo_client reverted)
          (demo_request demo_wallet demo_vault 5 (Some demo_signer))) =
     Inr (Executed \<lparr>hash = demo_hash,
            receipt = \<lparr>rc_status = reverted, rc_from = demo_wallet, rc_to = demo_vault\<rparr>\<rparr>)
   \<and> rc_status \<lparr>rc_status = reverted, rc_from = demo_wallet, rc_to = demo_vault\<rparr> \<noteq> success"
  by (simp add: demo_send_run)

text \<open>
  Claim C7, amended. For every request that passes all validation checks and supplies a
  wallet client, when the gas estimation, the submission and the wait for confirmation
  answer, the execution result returned holds the hash that the wallet client returned for
  the descriptor and, unchanged, the receipt that the chain returned for that hash. If
  receipts echo the \<^verbatim>\<open>from\<close> and \<^verbatim>\<open>to\<close> of the descriptor submitted under
  their hash, the receipt's \<^verbatim>\<open>from\<close> is the depositor and its \<^verbatim>\<open>to\<close> is the vault.
  The status of the receipt is whatever the chain reports.
\<close>

theorem executed_result_hash_and_receipt:
  assumes "0 < amount p" "wallet p \<noteq> zero_address" "vault p \<noteq> zero_address"
    and "read_asset c (vault p) = Inr asset"
    and "read_balanceOf c asset (wallet p) = Inr balance" "amount p \<le> int balance"
    and "read_allowance c asset (wallet p) (vault p) = Inr allowance" "amount p \<le> int allowance"
    and "read_maxDeposit c (vault p) (wallet p) = Inr maxDeposit" "amount p \<le> int maxDeposit"
    and "enc (amount p) (wallet p) = Inr d"
    and "estimateGas c \<lparr>eg_account = wallet p, eg_to = vault p, eg_data = d\<rparr> = Inr g"
    and "walletClient p = Some wc"
    and "sendTransaction wc
           \<lparr>tx_data = d, tx_from = wallet p, tx_to = vault p, tx_value = 0,
            tx_gas = int g + int g * 10 div 100, account = wallet p, chain = None\<rparr> = Inr h"
    and "waitForTransactionReceipt c h = Inr r"
  shows "fst (deposit enc c p) = Inr (Executed \<lparr>hash = h, receipt = r\<rparr>)
     \<and> ((\<forall>req h' r'. sendTransaction wc req = Inr h' \<and> waitForTransactionReceipt c h' = Inr r'
            \<longrightarrow> rc_from r' = tx_from req \<and> rc_to r' = tx_to req)
          \<longrightarrow> rc_from r = wallet p \<and> rc_to r = vault p)"
proof -
  note run = deposit_send [where enc = enc, OF assms(1-13) refl]
  have res: "fst (deposit enc c p) = Inr (Executed \<lparr>hash = h, receipt = r\<rparr>)"
    using assms(14,15) by (simp add: run)
  have "rc_from r = wallet p \<and> rc_to r = vault p"
    if "\<forall>req h' r'. sendTransaction wc req = Inr h' \<and> waitForTransactionReceipt c h' = Inr r'
            \<longrightarrow> rc_from r' = tx_from req \<and> rc_to r' = tx_to req"
    using that [rule_format, OF conjI, OF assms(14,15)] by simp
  with res show ?thesis
    by blast
qed

theorem executed_result_hash_and_receipt_witness:
  "fst (deposit demo_encode (demo_client reverted)
          (demo_request demo_wallet demo_vault 5 (Some strict_signer))) =
     Inr (Executed \<lparr>hash = demo_hash,
            receipt = \<lparr>rc_status = reverted, rc_from = demo_wallet, rc_to = demo_vault\<rparr>\<rparr>)
   \<and> rc_from \<lparr>rc_status = reverted, rc_from = demo_wallet, rc_to = demo_vault\<rparr> =
       wallet (demo_request demo_wallet demo_vault 5 (Some strict_signer))
   \<and> rc_to \<lparr>rc_status = reverted, rc_from = demo_wallet, rc_to = demo_vault\<rparr> =
       vault (demo_request demo_wallet demo_vault 5 (Some strict_signer))"
proof -
  let ?p = "demo_request demo_wallet demo_vault 5 (Some strict_signer)"
  let ?c = "demo_client reverted"
  have wc: "walletClient ?p = Some strict_signer"
    by (simp add: demo_request_def)
  have send: "sendTransaction strict_signer
           \<lparr>tx_data = ''0x6e553f651111170997970c51812dc3a010c7d01b50e0d17dc79c8'',
            tx_from = wallet ?p, tx_to = vault ?p, tx_value = 0,
            tx_gas = int 21005 + int 21005 * 10 div 100, account = wallet ?p, chain = None\<rparr>
          = Inr demo_hash"
    by (simp add: strict_signer_def demo_request_def)
  have wait: "waitForTransactionReceipt ?c demo_hash =
      Inr \<lparr>rc_status = reverted, rc_from = demo_wallet, rc_to = demo_vault\<rparr>"
    by (simp add: demo_client_def)
  have echo: "\<forall>req h' r'. sendTransaction strict_signer req = Inr h'
           \<and> waitForTransactionReceipt ?c h' = Inr r'
          \<longrightarrow> rc_from r' = tx_from req \<and> rc_to r' = tx_to req"
    by (auto simp add: strict_signer_def demo_client_def split: if_splits)
  from executed_result_hash_and_receipt [where enc = demo_encode, OF demo_checks wc send wait]
    echo
  show ?thesis
    by simp
qed

subsection \<open>The write path\<close>

text \<open>
  Claim C8. Whenever \<^verbatim>\<open>deposit\<close> ends with one of its five domain errors, no
  transaction has been handed to the wallet client: the log holds no submission, and every
  call in it is a read-only contract query.
\<close>

theorem domain_error_sends_nothing:
  assumes "fst (deposit enc c p) = Inl e"
    and "e \<in> {NotEnoughBalanceError, MissingAllowanceError, AmountExceedsMaxDepositError,
              InvalidAmountError, InvalidReceiverError}"
  shows "sends (snd (deposit enc c p)) = [] \<and> list_all contract_read (snd (deposit enc c p))"
  using assms
  by (auto simp add: deposit_def eff_defs sends_def Let_def
      split: if_splits sum.splits option.splits)

theorem domain_error_sends_nothing_witness:
  "fst (deposit demo_encode (demo_client success)
          (demo_request demo_wallet demo_vault 7 (Some demo_signer))) =
     Inl AmountExceedsMaxDepositError
   \<and> sends (snd (deposit demo_encode (demo_client success)
          (demo_request demo_wallet demo_vault 7 (Some demo_signer)))) = []
   \<and> list_all contract_read (snd (deposit demo_encode (demo_client success)
          (demo_request demo_wallet demo_vault 7 (Some demo_signer))))"
proof -
  have run: "fst (deposit demo_encode (demo_client success)
          (demo_request demo_wallet demo_vault 7 (Some demo_signer))) =
     Inl AmountExceedsMaxDepositError"
    by (simp add: deposit_def eff_defs demo_request_def demo_client_def
        demo_wallet_def demo_vault_def demo_asset_def zero_address_def)
  from domain_error_sends_nothing [OF run] run show ?thesis
    by simp
qed

text \<open>
  Claim C9. Within one invocation of \<^verbatim>\<open>deposit\<close> the wallet client's
  \<^verbatim>\<open>sendTransaction\<close> is invoked at most once, whatever the chain and the wallet
  client answer: there is no resubmission, retry or gas bump.
\<close>

theorem send_at_most_once:
  "length (sends (snd (deposit enc c p))) \<le> 1"
  by (simp add: deposit_def eff_defs sends_def Let_def split: sum.splits option.splits)

text \<open>
  Claim C10. For every successful run, the call data handed to the gas simulation is
  identical to the \<^verbatim>\<open>data\<close> field of the descriptor that is returned (quote mode)
  or submitted (execution mode): both are the encoding of \<^verbatim>\<open>deposit(amount, wallet)\<close>,
  and exactly one simulation was issued.
\<close>

theorem simulated_data_is_descriptor_data:
  assumes "fst (deposit enc c p) = Inr out"
  shows "\<exists>d. enc (amount p) (wallet p) = Inr d
      \<and> map eg_data (estimates (snd (deposit enc c p))) = [d]
      \<and> (case out of
            Quote tx \<Rightarrow> tx_data tx = d
          | Executed r \<Rightarrow> map tx_data (sends (snd (deposit enc c p))) = [d])"
proof -
  from assms obtain asset balance allowance maxDeposit d g where
    pre: "0 < amount p" "wallet p \<noteq> zero_address" "vault p \<noteq> zero_address"
      "read_asset c (vault p) = Inr asset"
      "read_balanceOf c asset (wallet p) = Inr balance" "amount p \<le> int balance"
      "read_allowance c asset (wallet p) (vault p) = Inr allowance" "amount p \<le> int allowance"
      "read_maxDeposit c (vault p) (wallet p) = Inr maxDeposit" "amount p \<le> int maxDeposit"
      "enc (amount p) (wallet p) = Inr d"
      "estimateGas c \<lparr>eg_account = wallet p, eg_to = vault p, eg_data = d\<rparr> = Inr g"
    by (rule deposit_Inr_E)
  have "map eg_data (estimates (snd (deposit enc c p))) = [d]
      \<and> (case out of
            Quote tx \<Rightarrow> tx_data tx = d
          | Executed r \<Rightarrow> map tx_data (sends (snd (deposit enc c p))) = [d])"
  proof (cases "walletClient p")
    case None
    from deposit_quote [where enc = enc, OF pre None] assms show ?thesis
      by (auto simp add: estimates_def)
  next
    case (Some wc)
    from deposit_send [where enc = enc, OF pre Some refl] assms show ?thesis
      by (auto simp add: sends_def estimates_def split: sum.splits)
  qed
  with pre(11) show ?thesis
    by - (rule exI [where x = d], simp)
qed

theorem simulated_data_is_descriptor_data_witness:
  "fst (deposit demo_encode (demo_client success)
          (demo_request demo_wallet demo_vault 5 (Some demo_signer))) =
     Inr (Executed \<lparr>hash = demo_hash,
            receipt = \<lparr>rc_status = success, rc_from = demo_wallet, rc_to = demo_vault\<rparr>\<rparr>)
   \<and> map eg_data (estimates (snd (deposit demo_encode (demo_client success)
          (demo_request demo_wallet demo_vault 5 (Some demo_signer))))) =
       [''0x6e553f651111170997970c51812dc3a010c7d01b50e0d17dc79c8'']
   \<and> map tx_data (sends (snd (deposit demo_encode (demo_client success)
          (demo_request demo_wallet demo_vault 5 (Some demo_signer))))) =
       [''0x6e553f651111170997970c51812dc3a010c7d01b50e0d17dc79c8'']"
proof -
  have run: "fst (deposit demo_encode (demo_client success)
          (demo_request demo_wallet demo_vault 5 (Some demo_signer))) =
     Inr (Executed \<lparr>hash = demo_hash,
            receipt = \<lparr>rc_status = success, rc_from = demo_wallet, rc_to = demo_vault\<rparr>\<rparr>)"
    by (simp add: demo_send_run)
  have enc: "demo_encode (amount (demo_request demo_wallet demo_vault 5 (Some demo_signer)))
      (wallet (demo_request demo_wallet demo_vault 5 (Some demo_signer))) =
      Inr ''0x6e553f651111170997970c51812dc3a010c7d01b50e0d17dc79c8''"
    by (rule demo_checks)
  from simulated_data_is_descriptor_data [OF run] enc run show ?thesis
    by auto
qed

end
